theory Spec2Isabelle
  imports Complex_Main "HOL-Library.Multiset"
begin

section \<open>Common Python and SQLite notions\<close>

text \<open>
  The four applications keep their state in SQLite tables (inventory, hotel, library) or
  in a list of dataclass objects (task manager). A table is modelled as the list of its
  rows in rowid order, a row as a record with one field per column. A handler takes the
  committed database and returns the committed database after the request together with
  what the caller sees. A Python exception that escapes a handler leaves the connection
  uncommitted, so the committed database is the one the handler started from.

  Form fields are taken after \<^verbatim>\<open>int(...)\<close> and \<^verbatim>\<open>float(...)\<close> have parsed them; a field
  that does not parse raises \<^verbatim>\<open>ValueError\<close> before any statement runs. Storage failures
  of SQLite itself (disk, locking, rowid exhaustion) are outside the model.
\<close>

datatype pyerror = OverflowError | TypeError | IntegrityError | OperationalError

text \<open>
  A Python \<^verbatim>\<open>float\<close>. The payload of \<open>Finite\<close> idealises the double as a real number
  (rounding is not modelled); which values are NaN is exact, and that is all the handlers'
  control flow depends on: SQLite stores a NaN parameter as NULL.
\<close>

datatype pyfloat = Finite real | PosInf | NegInf | NaN

text \<open>
  \<^verbatim>\<open>quantity * unit_price\<close> with an \<^verbatim>\<open>int\<close> on the left. For an \<^verbatim>\<open>int\<close> too large for a
  double Python raises \<^verbatim>\<open>OverflowError\<close> here; such an \<^verbatim>\<open>int\<close> is also outside SQLite's
  64-bit range, and every use below binds the same \<^verbatim>\<open>int\<close> as a statement parameter, where
  it raises the same \<^verbatim>\<open>OverflowError\<close>.
\<close>

fun int_times_float :: "int \<Rightarrow> pyfloat \<Rightarrow> pyfloat" where
  "int_times_float q (Finite r) = Finite (of_int q * r)"
| "int_times_float q PosInf = (if q = 0 then NaN else if 0 < q then PosInf else NegInf)"
| "int_times_float q NegInf = (if q = 0 then NaN else if 0 < q then NegInf else PosInf)"
| "int_times_float q NaN = NaN"

text \<open>The \<^verbatim>\<open>sqlite3\<close> module binds a Python \<^verbatim>\<open>int\<close> only when it fits a signed 64-bit integer.\<close>

definition sqlite_int :: "int \<Rightarrow> bool" where
  "sqlite_int n = (- (2 ^ 63) \<le> n \<and> n < 2 ^ 63)"

datatype http_method = GET | POST

text \<open>
  What a Flask handler returns: a redirect to an endpoint after
  \<^verbatim>\<open>flash(message, category)\<close> (the category is \<^verbatim>\<open>'message'\<close> when the call gives none), a
  rendered template (its name), or an exception that escapes.
\<close>

datatype response =
    Flash_redirect string string string
  | Render string
  | Raised pyerror

text \<open>The Flask session: the \<^verbatim>\<open>user_id\<close> key, when present.\<close>

type_synonym session = "int option"

text \<open>
  \<^verbatim>\<open>login_required\<close>, the decorator both web applications put on their handlers. The
  wrapped handler reads \<^verbatim>\<open>session['user_id']\<close> itself; here it receives it as an argument.
\<close>

definition login_required ::
  "string \<Rightarrow> string \<Rightarrow> session \<Rightarrow> (int \<Rightarrow> 'db \<Rightarrow> 'db \<times> response) \<Rightarrow> 'db
     \<Rightarrow> 'db \<times> response" where
  "login_required msg cat sess f db =
     (case sess of
        None \<Rightarrow> (db, Flash_redirect msg cat ''login'')
      | Some uid \<Rightarrow> f uid db)"


section \<open>Inventory management (002): tables\<close>

text \<open>
  Tables \<^verbatim>\<open>items\<close> and \<^verbatim>\<open>transactions\<close> of \<^verbatim>\<open>init_db\<close>. Both keys are
  \<^verbatim>\<open>INTEGER PRIMARY KEY AUTOINCREMENT\<close>: the next id is one more than the largest id the
  table ever held, which the database keeps as a counter. Timestamps are the text
  \<^verbatim>\<open>CURRENT_TIMESTAMP\<close> yields, passed in as \<open>now\<close>. Table \<^verbatim>\<open>users\<close> is written by
  \<^verbatim>\<open>register\<close> only and read by \<^verbatim>\<open>login\<close> only; it is left out.
\<close>

record item =
  item_id :: int
  name :: string
  description :: string
  quantity :: int
  unit_price :: pyfloat
  category :: string
  minimum_stock :: int
  created_at :: string
  updated_at :: string

record txn =
  txn_id :: int
  txn_item_id :: int
  txn_type :: string
  txn_quantity :: int
  txn_unit_price :: pyfloat
  txn_total_amount :: pyfloat
  txn_reference_no :: "string option"
  txn_notes :: "string option"
  txn_created_at :: string

record inventory_db =
  items :: "item list"
  items_seq :: int
  transactions :: "txn list"
  transactions_seq :: int


subsection \<open>The SQL statements of the handlers\<close>


text \<open>
  \<^verbatim>\<open>INSERT INTO transactions (...)\<close>: the integers must bind, \<^verbatim>\<open>type\<close> has
  \<^verbatim>\<open>CHECK(type IN ('in', 'out'))\<close>, \<^verbatim>\<open>unit_price\<close> and \<^verbatim>\<open>total_amount\<close> are \<^verbatim>\<open>NOT NULL\<close>.
\<close>

definition insert_transaction ::
  "string \<Rightarrow> int \<Rightarrow> string \<Rightarrow> int \<Rightarrow> pyfloat \<Rightarrow> pyfloat \<Rightarrow> string option \<Rightarrow> string option
     \<Rightarrow> inventory_db \<Rightarrow> pyerror + inventory_db" where
  "insert_transaction now iid ty qty price amount ref nts db =
     (if \<not> sqlite_int iid \<or> \<not> sqlite_int qty then Inl OverflowError
      else if ty \<noteq> ''in'' \<and> ty \<noteq> ''out'' then Inl IntegrityError
      else if price = NaN \<or> amount = NaN then Inl IntegrityError
      else Inr (db\<lparr>transactions := transactions db @
                  [\<lparr>txn_id = transactions_seq db + 1, txn_item_id = iid, txn_type = ty,
                    txn_quantity = qty, txn_unit_price = price, txn_total_amount = amount,
                    txn_reference_no = ref, txn_notes = nts, txn_created_at = now\<rparr>],
                transactions_seq := transactions_seq db + 1\<rparr>))"

text \<open>\<^verbatim>\<open>UPDATE items SET quantity = ? WHERE id = ?\<close>\<close>

definition update_quantity :: "int \<Rightarrow> int \<Rightarrow> inventory_db \<Rightarrow> pyerror + inventory_db" where
  "update_quantity new_quantity iid db =
     (if \<not> sqlite_int new_quantity \<or> \<not> sqlite_int iid then Inl OverflowError
      else Inr (db\<lparr>items := map (\<lambda>it. if item_id it = iid
                                       then it\<lparr>quantity := new_quantity\<rparr> else it)
                                (items db)\<rparr>))"

text \<open>\<^verbatim>\<open>SELECT ... FROM items WHERE id = ?\<close> followed by \<^verbatim>\<open>fetchone()\<close>\<close>

definition select_item :: "int \<Rightarrow> inventory_db \<Rightarrow> item option" where
  "select_item iid db = find (\<lambda>it. item_id it = iid) (items db)"

subsection \<open>Handlers\<close>



text \<open>\<^verbatim>\<open>edit_item\<close> (route \<^verbatim>\<open>/items/edit/<int:id>\<close>): the item is selected first, for both methods.\<close>

record edit_item_form =
  edit_name :: string
  edit_description :: string
  edit_category :: string
  edit_minimum_stock :: int

definition edit_item ::
  "session \<Rightarrow> string \<Rightarrow> int \<Rightarrow> http_method \<Rightarrow> edit_item_form \<Rightarrow> inventory_db
     \<Rightarrow> inventory_db \<times> response" where
  "edit_item sess now iid meth form =
     login_required ''Please log in first'' ''message'' sess (\<lambda>uid db.
       if \<not> sqlite_int iid then (db, Raised OverflowError)
       else
         (case meth of
            GET \<Rightarrow> (db, Render ''items/edit.html'')
          | POST \<Rightarrow>
              if \<not> sqlite_int (edit_minimum_stock form) then (db, Raised OverflowError)
              else (db\<lparr>items := map (\<lambda>it. if item_id it = iid
                                           then it\<lparr>name := edit_name form,
                                                   description := edit_description form,
                                                   category := edit_category form,
                                                   minimum_stock := edit_minimum_stock form,
                                                   updated_at := now\<rparr>
                                           else it) (items db)\<rparr>,
                    Flash_redirect ''Item updated successfully!'' ''message'' ''items_list'')))"

text \<open>
  \<^verbatim>\<open>add_transaction\<close> (route \<^verbatim>\<open>/transactions/add\<close>). \<^verbatim>\<open>item['quantity']\<close> on a missing item
  (\<^verbatim>\<open>fetchone()\<close> gave \<^verbatim>\<open>None\<close>) raises \<^verbatim>\<open>TypeError\<close>.
\<close>

record add_transaction_form =
  form_item_id :: int
  form_type :: string
  form_amount :: int
  form_price :: pyfloat
  form_reference_no :: string
  form_notes :: string

definition add_transaction ::
  "session \<Rightarrow> string \<Rightarrow> http_method \<Rightarrow> add_transaction_form \<Rightarrow> inventory_db
     \<Rightarrow> inventory_db \<times> response" where
  "add_transaction sess now meth form =
     login_required ''Please log in first'' ''message'' sess (\<lambda>uid db.
       case meth of
         GET \<Rightarrow> (db, Render ''transactions/add.html'')
       | POST \<Rightarrow>
           if \<not> sqlite_int (form_item_id form) then (db, Raised OverflowError)
           else
             (case select_item (form_item_id form) db of
                None \<Rightarrow> (db, Raised TypeError)
              | Some it \<Rightarrow>
                  if form_type form = ''out'' \<and> quantity it < form_amount form
                  then (db, Flash_redirect ''Error: Insufficient stock!'' ''message'' ''add_transaction'')
                  else
                    (let new_quantity = (if form_type form = ''in''
                                         then quantity it + form_amount form
                                         else quantity it - form_amount form)
                     in (case update_quantity new_quantity (form_item_id form) db of
                           Inl e \<Rightarrow> (db, Raised e)
                         | Inr db1 \<Rightarrow>
                             (case insert_transaction now (form_item_id form) (form_type form)
                                     (form_amount form) (form_price form)
                                     (int_times_float (form_amount form) (form_price form))
                                     (Some (form_reference_no form)) (Some (form_notes form))
                                     db1 of
                                Inl e \<Rightarrow> (db, Raised e)
                              | Inr db2 \<Rightarrow>
                                  (db2, Flash_redirect ''Transaction added successfully!'' ''message''
                                          ''transactions_list''))))))"

text \<open>
  \<^verbatim>\<open>dashboard\<close>: the count \<^verbatim>\<open>stats['low_stock']\<close> and the list \<^verbatim>\<open>low_stock_items\<close>
  (\<^verbatim>\<open>WHERE quantity <= minimum_stock ORDER BY quantity ASC LIMIT 5\<close>). SQL leaves the order of
  rows of equal quantity open; the model keeps them in rowid order.
\<close>

definition is_low_stock :: "item \<Rightarrow> bool" where
  "is_low_stock it = (quantity it \<le> minimum_stock it)"

definition low_stock_count :: "inventory_db \<Rightarrow> nat" where
  "low_stock_count db = length (filter is_low_stock (items db))"

definition low_stock_items :: "inventory_db \<Rightarrow> item list" where
  "low_stock_items db = take 5 (sort_key quantity (filter is_low_stock (items db)))"

subsection \<open>Request sequences\<close>







text \<open>
  The columns of an item that \<^verbatim>\<open>edit_item\<close> does not name in its \<^verbatim>\<open>UPDATE\<close>.
\<close>

definition edit_frame :: "item \<Rightarrow> int \<times> int \<times> pyfloat \<times> string" where
  "edit_frame it = (item_id it, quantity it, unit_price it, created_at it)"



section \<open>Hotel booking (003): tables and \<^verbatim>\<open>cancel_booking\<close>\<close>

record room =
  room_id :: int
  room_number :: string
  room_type :: string
  capacity :: int
  price_per_night :: pyfloat
  amenities :: "string option"
  room_status :: string

record booking =
  booking_id :: int
  booking_user_id :: int
  booking_room_id :: int
  check_in_date :: string
  check_out_date :: string
  total_price :: pyfloat
  booking_status :: string
  guest_count :: int
  special_requests :: "string option"
  booking_created_at :: string

record hotel_db =
  rooms :: "room list"
  bookings :: "booking list"

text \<open>
  \<^verbatim>\<open>cancel_booking\<close> (route \<^verbatim>\<open>/cancel_booking/<int:booking_id>\<close>). The row that
  \<^verbatim>\<open>SELECT room_id FROM bookings WHERE id = ? AND user_id = ?\<close> returns is truthy (it has one
  column). The values \<^verbatim>\<open>'cancelled'\<close> and \<^verbatim>\<open>'available'\<close> satisfy the \<^verbatim>\<open>CHECK\<close> constraints
  of the two \<^verbatim>\<open>status\<close> columns. \<^verbatim>\<open>OverflowError\<close> is not an \<^verbatim>\<open>sqlite3.Error\<close> and escapes.
\<close>

definition cancel_booking :: "session \<Rightarrow> int \<Rightarrow> hotel_db \<Rightarrow> hotel_db \<times> response" where
  "cancel_booking sess bid =
     login_required ''Please login first.'' ''error'' sess (\<lambda>uid db.
       if \<not> sqlite_int bid \<or> \<not> sqlite_int uid then (db, Raised OverflowError)
       else
         (case find (\<lambda>b. booking_id b = bid \<and> booking_user_id b = uid) (bookings db) of
            Some found \<Rightarrow>
              (db\<lparr>bookings := map (\<lambda>b. if booking_id b = bid
                                         then b\<lparr>booking_status := ''cancelled''\<rparr> else b)
                                  (bookings db),
                  rooms := map (\<lambda>r. if room_id r = booking_room_id found
                                      then r\<lparr>room_status := ''available''\<rparr> else r)
                               (rooms db)\<rparr>,
               Flash_redirect ''Booking cancelled successfully!'' ''success'' ''bookings'')
          | None \<Rightarrow> (db, Flash_redirect ''Booking not found!'' ''error'' ''bookings'')))"


section \<open>Task manager (001): \<^verbatim>\<open>Task.is_overdue\<close>\<close>

text \<open>
  Python's \<^verbatim>\<open>date\<close> and \<^verbatim>\<open>datetime\<close> (naive, to the second). Dates compare by year, then
  month, then day.
\<close>

record pydate =
  year :: int
  month :: int
  day :: int

record pydatetime =
  date_part :: pydate
  hour :: int
  minute :: int
  second :: int

definition date_less :: "pydate \<Rightarrow> pydate \<Rightarrow> bool" where
  "date_less a b =
     (year a < year b
      \<or> (year a = year b \<and> (month a < month b \<or> (month a = month b \<and> day a < day b))))"

record task =
  task_id :: string
  title :: string
  task_description :: string
  due_date :: string
  priority :: string
  status :: string
  created_date :: string
  updated_date :: string
  task_category :: string

text \<open>\<^verbatim>\<open>Status.COMPLETED.value\<close>\<close>

definition COMPLETED :: string where
  "COMPLETED = ''Completed''"

text \<open>
  \<^verbatim>\<open>Task.is_overdue\<close>. The standard library's \<^verbatim>\<open>datetime.fromisoformat\<close> and the clock
  \<^verbatim>\<open>date.today()\<close> are parameters; \<open>fromisoformat s = None\<close> stands for the exception the
  bare \<^verbatim>\<open>except\<close> turns into \<^verbatim>\<open>False\<close>.
\<close>

definition is_overdue :: "(string \<Rightarrow> pydatetime option) \<Rightarrow> pydate \<Rightarrow> task \<Rightarrow> bool" where
  "is_overdue fromisoformat today t =
     (if status t = COMPLETED then False
      else (case fromisoformat (due_date t) of
              None \<Rightarrow> False
            | Some due \<Rightarrow> date_less (date_part due) today))"

text \<open>\<^verbatim>\<open>TaskManager.get_overdue_tasks\<close>, over the manager's list \<^verbatim>\<open>self.tasks\<close>\<close>

definition get_overdue_tasks ::
  "(string \<Rightarrow> pydatetime option) \<Rightarrow> pydate \<Rightarrow> task list \<Rightarrow> task list" where
  "get_overdue_tasks fromisoformat today tasks = filter (is_overdue fromisoformat today) tasks"

subsection \<open>The calendar, for examples\<close>

text \<open>
  The proleptic Gregorian calendar of Python's \<^verbatim>\<open>datetime\<close> module: leap years, days in a
  month, and the day number \<^verbatim>\<open>date.toordinal()\<close>.
\<close>

definition is_leap :: "int \<Rightarrow> bool" where
  "is_leap y = (y mod 4 = 0 \<and> (y mod 100 \<noteq> 0 \<or> y mod 400 = 0))"

definition days_in_month :: "int \<Rightarrow> int \<Rightarrow> int" where
  "days_in_month y m =
     (if m = 2 then (if is_leap y then 29 else 28)
      else if m = 4 \<or> m = 6 \<or> m = 9 \<or> m = 11 then 30 else 31)"

definition days_before_year :: "int \<Rightarrow> int" where
  "days_before_year y = (y - 1) * 365 + (y - 1) div 4 - (y - 1) div 100 + (y - 1) div 400"

definition days_before_month :: "int \<Rightarrow> int \<Rightarrow> int" where
  "days_before_month y m = sum_list (map (days_in_month y) [1..m - 1])"

definition toordinal :: "pydate \<Rightarrow> int" where
  "toordinal d = days_before_year (year d) + days_before_month (year d) (month d) + day d"

definition valid_date :: "int \<Rightarrow> int \<Rightarrow> int \<Rightarrow> bool" where
  "valid_date y m d =
     (1 \<le> y \<and> y \<le> 9999 \<and> 1 \<le> m \<and> m \<le> 12 \<and> 1 \<le> d \<and> d \<le> days_in_month y m)"

text \<open>
  \<^verbatim>\<open>datetime.fromisoformat\<close> on the two forms the task dialog writes and reads back,
  \<^verbatim>\<open>YYYY-MM-DD\<close> and \<^verbatim>\<open>YYYY-MM-DDTHH:MM:SS\<close> (any single character may stand for the
  \<^verbatim>\<open>T\<close>). Python accepts further forms (fractions of a second, offsets); this function
  is used for examples only and yields \<open>None\<close> outside the two forms.
\<close>

definition digit :: "char \<Rightarrow> int option" where
  "digit c =
     (let code = (of_char c :: nat)
      in if 48 \<le> code \<and> code \<le> 57 then Some (int code - 48) else None)"

fun digits :: "string \<Rightarrow> int option" where
  "digits [] = None"
| "digits cs =
     foldl (\<lambda>acc c. case (acc, digit c) of
                       (Some n, Some k) \<Rightarrow> Some (10 * n + k)
                     | _ \<Rightarrow> None) (Some 0) cs"

definition parse_date :: "string \<Rightarrow> pydate option" where
  "parse_date s =
     (if length s = 10 \<and> s ! 4 = CHR ''-'' \<and> s ! 7 = CHR ''-'' then
        (case (digits (take 4 s), digits (take 2 (drop 5 s)), digits (drop 8 s)) of
           (Some y, Some m, Some d) \<Rightarrow>
             if valid_date y m d then Some \<lparr>year = y, month = m, day = d\<rparr> else None
         | _ \<Rightarrow> None)
      else None)"

definition parse_time :: "string \<Rightarrow> (int \<times> int \<times> int) option" where
  "parse_time s =
     (if length s = 8 \<and> s ! 2 = CHR '':'' \<and> s ! 5 = CHR '':'' then
        (case (digits (take 2 s), digits (take 2 (drop 3 s)), digits (drop 6 s)) of
           (Some h, Some m, Some sec) \<Rightarrow>
             if h < 24 \<and> m < 60 \<and> sec < 60 then Some (h, m, sec) else None
         | _ \<Rightarrow> None)
      else None)"

definition fromisoformat_basic :: "string \<Rightarrow> pydatetime option" where
  "fromisoformat_basic s =
     (if length s = 10 then
        map_option (\<lambda>d. \<lparr>date_part = d, hour = 0, minute = 0, second = 0\<rparr>) (parse_date s)
      else if length s = 19 then
        (case (parse_date (take 10 s), parse_time (drop 11 s)) of
           (Some d, Some (h, m, sec)) \<Rightarrow>
             Some \<lparr>date_part = d, hour = h, minute = m, second = sec\<rparr>
         | _ \<Rightarrow> None)
      else None)"


section \<open>Library management (004): tables, \<^verbatim>\<open>add_borrow_record\<close> and \<^verbatim>\<open>return_book\<close>\<close>

text \<open>
  The tables are those \<^verbatim>\<open>DatabaseManager.setup_database\<close> creates, which the constructor
  runs before any other method. (A database file that \<^verbatim>\<open>init_db.py\<close> has filled beforehand
  keeps that script's tables, of other columns and with \<^verbatim>\<open>CHECK\<close> constraints; that case is
  outside this model.) Table \<^verbatim>\<open>borrow_records\<close> has ten columns there:
  \<^verbatim>\<open>id, book_id, user_id, borrow_date, due_date, return_date, extended_date, late_fee,
  status, notes\<close>. Its rows hold SQL values, since \<^verbatim>\<open>add_borrow_record\<close> fills them by
  position. Tables \<^verbatim>\<open>reservations\<close> and \<^verbatim>\<open>categories\<close> are touched by neither method and
  are left out. \<^verbatim>\<open>borrowed_books\<close> may be NULL, and stays NULL under \<^verbatim>\<open>+ 1\<close> and \<^verbatim>\<open>- 1\<close>;
  SQLite's change to floating point beyond 64 bits is not modelled.
\<close>

datatype sql_value = Null | Integer int | Real pyfloat | Text string

definition sql_real :: "pyfloat \<Rightarrow> sql_value" where
  "sql_real f = (if f = NaN then Null else Real f)"

definition sql_text_opt :: "string option \<Rightarrow> sql_value" where
  "sql_text_opt v = (case v of None \<Rightarrow> Null | Some s \<Rightarrow> Text s)"

record book =
  book_id :: string
  book_title :: string
  author :: string
  isbn :: string
  book_category :: string
  book_status :: string
  location :: string
  publisher :: "string option"
  publication_year :: "int option"
  edition :: "string option"
  pages :: "int option"
  language :: "string option"
  added_date :: string
  last_updated :: string
  book_notes :: "string option"

record library_user =
  user_id :: string
  user_name :: string
  email :: string
  phone :: string
  address :: string
  membership_type :: string
  membership_date :: string
  expiry_date :: "string option"
  user_status :: string
  borrowed_books :: "int option"
  fine_amount :: "pyfloat option"
  user_notes :: "string option"

record borrow_row =
  br_id :: sql_value
  br_book_id :: sql_value
  br_user_id :: sql_value
  br_borrow_date :: sql_value
  br_due_date :: sql_value
  br_return_date :: sql_value
  br_extended_date :: sql_value
  br_late_fee :: sql_value
  br_status :: sql_value
  br_notes :: sql_value

record library_db =
  books :: "book list"
  users :: "library_user list"
  borrow_records :: "borrow_row list"

text \<open>The dataclass \<^verbatim>\<open>BorrowRecord\<close>, with its defaults.\<close>

record BorrowRecord =
  rec_id :: string
  rec_book_id :: string
  rec_user_id :: string
  rec_borrow_date :: string
  rec_due_date :: string
  rec_status :: string
  rec_return_date :: "string option"
  rec_extended_date :: "string option"
  rec_late_fee :: pyfloat
  rec_notes :: "string option"

definition new_BorrowRecord ::
  "string \<Rightarrow> string \<Rightarrow> string \<Rightarrow> string \<Rightarrow> string \<Rightarrow> BorrowRecord" where
  "new_BorrowRecord i b u borrowed due =
     \<lparr>rec_id = i, rec_book_id = b, rec_user_id = u, rec_borrow_date = borrowed,
      rec_due_date = due, rec_status = ''Active'', rec_return_date = None,
      rec_extended_date = None, rec_late_fee = Finite 0, rec_notes = None\<rparr>"

text \<open>\<^verbatim>\<open>BookStatus.AVAILABLE.value\<close> and \<^verbatim>\<open>BookStatus.BORROWED.value\<close>\<close>

definition AVAILABLE :: string where
  "AVAILABLE = ''Available''"

definition BORROWED :: string where
  "BORROWED = ''Borrowed''"

text \<open>
  \<^verbatim>\<open>INSERT INTO borrow_records VALUES (...)\<close> names no columns, so it must supply one value
  for each column of the table, in the table's order. With any other number of values
  SQLite refuses the statement (\<^verbatim>\<open>table borrow_records has 10 columns but 8 values were
  supplied\<close>), which the \<^verbatim>\<open>sqlite3\<close> module raises as \<^verbatim>\<open>OperationalError\<close>. With ten values
  the primary key must be new and the \<^verbatim>\<open>NOT NULL\<close> columns filled, else \<^verbatim>\<open>IntegrityError\<close>.
\<close>

fun borrow_row_of_values :: "sql_value list \<Rightarrow> borrow_row option" where
  "borrow_row_of_values [v1, v2, v3, v4, v5, v6, v7, v8, v9, v10] =
     Some \<lparr>br_id = v1, br_book_id = v2, br_user_id = v3, br_borrow_date = v4,
           br_due_date = v5, br_return_date = v6, br_extended_date = v7, br_late_fee = v8,
           br_status = v9, br_notes = v10\<rparr>"
| "borrow_row_of_values vs = None"

definition insert_borrow_values :: "sql_value list \<Rightarrow> library_db \<Rightarrow> pyerror + library_db" where
  "insert_borrow_values vs db =
     (case borrow_row_of_values vs of
        None \<Rightarrow> Inl OperationalError
      | Some row \<Rightarrow>
          if br_id row \<noteq> Null \<and> br_id row \<in> set (map br_id (borrow_records db))
          then Inl IntegrityError
          else if br_book_id row = Null \<or> br_user_id row = Null \<or> br_borrow_date row = Null
                  \<or> br_due_date row = Null \<or> br_status row = Null
          then Inl IntegrityError
          else Inr (db\<lparr>borrow_records := borrow_records db @ [row]\<rparr>))"

text \<open>
  \<^verbatim>\<open>DatabaseManager.add_borrow_record\<close>. Every \<^verbatim>\<open>sqlite3.Error\<close> is caught, printed and
  turned into \<^verbatim>\<open>False\<close>; the connection is closed without a commit.
\<close>

definition add_borrow_record :: "BorrowRecord \<Rightarrow> library_db \<Rightarrow> library_db \<times> bool" where
  "add_borrow_record record db =
     (case insert_borrow_values
             [Text (rec_id record), Text (rec_book_id record), Text (rec_user_id record),
              Text (rec_borrow_date record), Text (rec_due_date record),
              sql_text_opt (rec_return_date record), sql_real (rec_late_fee record),
              Text (rec_status record)] db of
        Inl e \<Rightarrow> (db, False)
      | Inr db1 \<Rightarrow>
          (db1\<lparr>books := map (\<lambda>b. if book_id b = rec_book_id record
                                   then b\<lparr>book_status := BORROWED\<rparr> else b) (books db1),
               users := map (\<lambda>u. if user_id u = rec_user_id record
                                   then u\<lparr>borrowed_books :=
                                            map_option (\<lambda>n. n + 1) (borrowed_books u)\<rparr>
                                   else u) (users db1)\<rparr>,
           True))"

text \<open>
  \<^verbatim>\<open>DatabaseManager.return_book\<close>. Unpacking \<^verbatim>\<open>c.fetchone()\<close> when no record has the id
  raises \<^verbatim>\<open>TypeError\<close>, which is not an \<^verbatim>\<open>sqlite3.Error\<close> and escapes. \<^verbatim>\<open>late_fee\<close> is a
  parameter, \<^verbatim>\<open>0.0\<close> when the caller gives none.
\<close>

definition return_book ::
  "string \<Rightarrow> string \<Rightarrow> pyfloat \<Rightarrow> library_db \<Rightarrow> library_db \<times> (pyerror + bool)" where
  "return_book record_id return_date late_fee db =
     (case find (\<lambda>r. br_id r = Text record_id) (borrow_records db) of
        None \<Rightarrow> (db, Inl TypeError)
      | Some found \<Rightarrow>
          (db\<lparr>borrow_records :=
                 map (\<lambda>r. if br_id r = Text record_id
                           then r\<lparr>br_return_date := Text return_date,
                                   br_late_fee := sql_real late_fee,
                                   br_status := Text ''Returned''\<rparr>
                           else r) (borrow_records db),
              books := map (\<lambda>b. if Text (book_id b) = br_book_id found
                                  then b\<lparr>book_status := AVAILABLE\<rparr> else b) (books db),
              users := map (\<lambda>u. if Text (user_id u) = br_user_id found
                                  then u\<lparr>borrowed_books :=
                                           map_option (\<lambda>n. n - 1) (borrowed_books u)\<rparr>
                                  else u) (users db)\<rparr>,
           Inr True))"

definition default_late_fee :: pyfloat where
  "default_late_fee = Finite 0"

text \<open>
  The fee rule of the specification, \<^verbatim>\<open>computeLateFee(dueDate, returnDate, dailyRate)\<close>,
  written from its words for comparison with what \<^verbatim>\<open>return_book\<close> stores:
  \<^verbatim>\<open>max(0, daysBetween(dueDate, returnDate)) * dailyRate\<close>.
\<close>

definition spec_computeLateFee :: "pydate \<Rightarrow> pydate \<Rightarrow> int \<Rightarrow> int" where
  "spec_computeLateFee due returned rate = max 0 (toordinal returned - toordinal due) * rate"


section \<open>Example data\<close>

text \<open>Inventory: one item holding 10 after its initial stock, and forms against it.\<close>

definition stock_db :: inventory_db where
  "stock_db =
     \<lparr>items = [\<lparr>item_id = 1, name = ''bolt'', description = '''', quantity = 10,
                unit_price = Finite 2, category = ''parts'', minimum_stock = 10,
                created_at = ''2024-01-01 00:00:00'', updated_at = ''2024-01-01 00:00:00''\<rparr>],
      items_seq = 1,
      transactions = [\<lparr>txn_id = 1, txn_item_id = 1, txn_type = ''in'', txn_quantity = 10,
                       txn_unit_price = Finite 2, txn_total_amount = Finite 20,
                       txn_reference_no = None, txn_notes = Some ''Initial stock'',
                       txn_created_at = ''2024-01-01 00:00:00''\<rparr>],
      transactions_seq = 1\<rparr>"

definition movement_form :: "string \<Rightarrow> int \<Rightarrow> add_transaction_form" where
  "movement_form ty n =
     \<lparr>form_item_id = 1, form_type = ty, form_amount = n, form_price = Finite 2,
      form_reference_no = ''R1'', form_notes = ''''\<rparr>"


definition rename_form :: edit_item_form where
  "rename_form = \<lparr>edit_name = ''washer'', edit_description = ''m6'', edit_category = ''parts'',
                  edit_minimum_stock = 3\<rparr>"

text \<open>Items given as (id, quantity, minimum stock).\<close>

definition shelf :: "(int \<times> int \<times> int) list \<Rightarrow> inventory_db" where
  "shelf rows =
     \<lparr>items = map (\<lambda>(i, q, m). \<lparr>item_id = i, name = ''part'', description = '''', quantity = q,
                                 unit_price = Finite 1, category = ''parts'', minimum_stock = m,
                                 created_at = ''2024-01-01 00:00:00'',
                                 updated_at = ''2024-01-01 00:00:00''\<rparr>) rows,
      items_seq = int (length rows), transactions = [], transactions_seq = 0\<rparr>"



text \<open>Hotel: room 101, booked by user 2.\<close>

definition hotel_example :: hotel_db where
  "hotel_example =
     \<lparr>rooms = [\<lparr>room_id = 1, room_number = ''101'', room_type = ''Standard Single'',
                capacity = 1, price_per_night = Finite 100,
                amenities = Some ''Wi-Fi, TV, AC'', room_status = ''occupied''\<rparr>],
      bookings = [\<lparr>booking_id = 1, booking_user_id = 2, booking_room_id = 1,
                   check_in_date = ''2024-03-01'', check_out_date = ''2024-03-03'',
                   total_price = Finite 200, booking_status = ''confirmed'', guest_count = 1,
                   special_requests = Some '''', booking_created_at = ''2024-02-01 10:00:00''\<rparr>]\<rparr>"

text \<open>Tasks\<close>

definition example_task :: "string \<Rightarrow> string \<Rightarrow> string \<Rightarrow> task" where
  "example_task i due st =
     \<lparr>task_id = i, title = ''report'', task_description = '''', due_date = due,
      priority = ''Medium'', status = st, created_date = ''2024-05-01T09:00:00'',
      updated_date = ''2024-05-01T09:00:00'', task_category = ''General''\<rparr>"

text \<open>
  Library: book \<open>b1\<close> on loan to user \<open>u1\<close> (record \<open>r1\<close>, due 2024-01-10), book \<open>b2\<close> on
  the shelf; \<open>closed_example\<close> is the database after \<open>r1\<close> was returned on 2024-01-13 with
  a fee of 6.
\<close>

definition example_book :: "string \<Rightarrow> string \<Rightarrow> book" where
  "example_book i st =
     \<lparr>book_id = i, book_title = ''1984'', author = ''George Orwell'', isbn = i,
      book_category = ''Fiction'', book_status = st, location = ''Section A-3'',
      publisher = None, publication_year = None, edition = None, pages = None,
      language = Some ''English'', added_date = ''2024-01-01T09:00:00'',
      last_updated = ''2024-01-01T09:00:00'', book_notes = None\<rparr>"

definition example_user :: "string \<Rightarrow> int \<Rightarrow> library_user" where
  "example_user i n =
     \<lparr>user_id = i, user_name = ''Jane Smith'', email = ''jane@example.com'',
      phone = ''555-0102'', address = ''456 Oak Ave'', membership_type = ''Regular'',
      membership_date = ''2023-09-01T09:00:00'', expiry_date = None, user_status = ''Active'',
      borrowed_books = Some n, fine_amount = Some (Finite 0), user_notes = None\<rparr>"

definition example_loan :: "string \<Rightarrow> string \<Rightarrow> string \<Rightarrow> string \<Rightarrow> borrow_row" where
  "example_loan i b u due =
     \<lparr>br_id = Text i, br_book_id = Text b, br_user_id = Text u,
      br_borrow_date = Text ''2024-01-01'', br_due_date = Text due, br_return_date = Null,
      br_extended_date = Null, br_late_fee = Real (Finite 0), br_status = Text ''Active'',
      br_notes = Null\<rparr>"

definition library_example :: library_db where
  "library_example =
     \<lparr>books = [example_book ''b1'' ''Borrowed'', example_book ''b2'' ''Available''],
      users = [example_user ''u1'' 1],
      borrow_records = [example_loan ''r1'' ''b1'' ''u1'' ''2024-01-10'']\<rparr>"

definition closed_example :: library_db where
  "closed_example = fst (return_book ''r1'' ''2024-01-13'' (Finite 6) library_example)"


section \<open>Auxiliary facts\<close>

lemma find_SomeD: "find P xs = Some x \<Longrightarrow> x \<in> set xs \<and> P x"
  by (induction xs) (auto split: if_splits)

lemma sorted_take_drop_le:
  assumes "sorted (map f xs)" and "y \<in> set (take n xs)" and "x \<in> set (drop n xs)"
  shows "f y \<le> f x"
proof -
  have "sorted (map f (take n xs) @ map f (drop n xs))"
    using assms(1) by (simp flip: map_append)
  then show ?thesis
    using assms(2,3) by (auto simp: sorted_append)
qed

lemma date_less_irrefl: "\<not> date_less d d"
  by (simp add: date_less_def)















section \<open>Inventory management (002): properties\<close>






text \<open>
  C2. An outgoing movement whose amount exceeds the current quantity of an existing item
  is refused with the message \<^verbatim>\<open>Error: Insufficient stock!\<close>, and the database (the item's
  quantity and the transactions ledger) is exactly what it was.
\<close>

theorem add_transaction_out_insufficient:
  assumes "select_item (form_item_id form) db = Some it"
    and "sqlite_int (form_item_id form)"
    and "form_type form = ''out''"
    and "quantity it < form_amount form"
  shows "add_transaction (Some uid) now POST form db =
           (db, Flash_redirect ''Error: Insufficient stock!'' ''message'' ''add_transaction'')"
  using assms by (simp add: add_transaction_def login_required_def)

theorem add_transaction_out_insufficient_witness:
  "add_transaction (Some 7) ''2024-01-02 00:00:00'' POST (movement_form ''out'' 11) stock_db =
     (stock_db, Flash_redirect ''Error: Insufficient stock!'' ''message'' ''add_transaction'')"
  by (rule add_transaction_out_insufficient [where it = "hd (items stock_db)"])
     (simp_all add: stock_db_def movement_form_def select_item_def sqlite_int_def)

text \<open>
  C3. The handler has no check on the sign of an incoming amount. A counterexample to the
  rejection of non-positive amounts: an incoming movement of \<open>-3\<close> on an item holding 10 is
  committed, the item then holds 7 and the ledger has a second row.
\<close>

theorem add_transaction_in_negative_counterexample:
  "map quantity (items (fst (add_transaction (Some 7) ''2024-01-02 00:00:00'' POST
       (movement_form ''in'' (- 3)) stock_db))) = [7]
   \<and> map txn_quantity (transactions (fst (add_transaction (Some 7) ''2024-01-02 00:00:00'' POST
       (movement_form ''in'' (- 3)) stock_db))) = [10, - 3]
   \<and> snd (add_transaction (Some 7) ''2024-01-02 00:00:00'' POST
       (movement_form ''in'' (- 3)) stock_db) =
     Flash_redirect ''Transaction added successfully!'' ''message'' ''transactions_list''"
  by (simp add: add_transaction_def login_required_def update_quantity_def
      insert_transaction_def stock_db_def movement_form_def select_item_def sqlite_int_def)

text \<open>
  C3, as the code has it. An incoming movement on an existing item is committed whatever
  the sign of its amount, provided its values can be stored (the amount and the new
  quantity fit SQLite's 64-bit integers, price and total are not NaN): every row of that
  item gets the quantity plus the amount, and the movement is appended to the ledger.
\<close>

theorem add_transaction_in_always_admitted:
  assumes "select_item (form_item_id form) db = Some it"
    and "sqlite_int (form_item_id form)"
    and "form_type form = ''in''"
    and "sqlite_int (form_amount form)"
    and "sqlite_int (quantity it + form_amount form)"
    and "form_price form \<noteq> NaN"
    and "int_times_float (form_amount form) (form_price form) \<noteq> NaN"
  shows "add_transaction (Some uid) now POST form db =
           (db\<lparr>items := map (\<lambda>r. if item_id r = form_item_id form
                                   then r\<lparr>quantity := quantity it + form_amount form\<rparr> else r)
                            (items db),
               transactions := transactions db @
                 [\<lparr>txn_id = transactions_seq db + 1, txn_item_id = form_item_id form,
                   txn_type = ''in'', txn_quantity = form_amount form,
                   txn_unit_price = form_price form,
                   txn_total_amount = int_times_float (form_amount form) (form_price form),
                   txn_reference_no = Some (form_reference_no form),
                   txn_notes = Some (form_notes form), txn_created_at = now\<rparr>],
               transactions_seq := transactions_seq db + 1\<rparr>,
            Flash_redirect ''Transaction added successfully!'' ''message'' ''transactions_list'')"
  using assms
  by (simp add: add_transaction_def login_required_def update_quantity_def
      insert_transaction_def)

theorem add_transaction_in_always_admitted_witness:
  "map quantity (items (fst (add_transaction (Some 7) ''2024-01-02 00:00:00'' POST
       (movement_form ''in'' 0) stock_db))) = [10]
   \<and> length (transactions (fst (add_transaction (Some 7) ''2024-01-02 00:00:00'' POST
       (movement_form ''in'' 0) stock_db))) = 2"
  using add_transaction_in_always_admitted [of "movement_form ''in'' 0" stock_db
      "hd (items stock_db)" 7 "''2024-01-02 00:00:00''"]
  by (simp add: stock_db_def movement_form_def select_item_def sqlite_int_def)

text \<open>
  C8, counterexample. The dashboard's query ends in \<^verbatim>\<open>LIMIT 5\<close>. Of six items at or below
  their minimum, the list holds the five of least quantity; item 1 is left out.
\<close>

theorem low_stock_items_limit_counterexample:
  "map item_id (filter is_low_stock
       (items (shelf [(1, 6, 10), (2, 5, 10), (3, 4, 10), (4, 3, 10), (5, 2, 10), (6, 1, 10)])))
     = [1, 2, 3, 4, 5, 6]
   \<and> map item_id
       (low_stock_items (shelf [(1, 6, 10), (2, 5, 10), (3, 4, 10), (4, 3, 10), (5, 2, 10), (6, 1, 10)]))
     = [6, 5, 4, 3, 2]"
  by (simp add: low_stock_items_def shelf_def is_low_stock_def)

text \<open>
  C8, as the code has it. \<^verbatim>\<open>low_stock_items\<close> holds only items with
  \<^verbatim>\<open>quantity <= minimum_stock\<close>, in ascending order of quantity, and as many of them as
  there are, up to five; \<^verbatim>\<open>stats['low_stock']\<close> counts all of them. When there are at most
  five, the list holds exactly these items; otherwise an item left out has a quantity no
  smaller than any item listed.
\<close>

theorem low_stock_items_first_five:
  "set (low_stock_items db) \<subseteq> {it \<in> set (items db). quantity it \<le> minimum_stock it}
   \<and> sorted (map quantity (low_stock_items db))
   \<and> length (low_stock_items db) = min 5 (low_stock_count db)
   \<and> low_stock_count db = length (filter (\<lambda>it. quantity it \<le> minimum_stock it) (items db))
   \<and> (low_stock_count db \<le> 5 \<longrightarrow>
        mset (low_stock_items db) =
        mset (filter (\<lambda>it. quantity it \<le> minimum_stock it) (items db)))
   \<and> (\<forall>x y. x \<in> set (items db) \<and> quantity x \<le> minimum_stock x \<and> x \<notin> set (low_stock_items db)
          \<and> y \<in> set (low_stock_items db) \<longrightarrow> quantity y \<le> quantity x)"
proof -
  let ?low = "filter is_low_stock (items db)"
  let ?srt = "sort_key quantity ?low"
  have low: "?low = filter (\<lambda>it. quantity it \<le> minimum_stock it) (items db)"
    by (simp add: is_low_stock_def [abs_def])
  have a: "set (low_stock_items db) \<subseteq> {it \<in> set (items db). quantity it \<le> minimum_stock it}"
  proof
    fix x assume "x \<in> set (low_stock_items db)"
    then have "x \<in> set ?srt" unfolding low_stock_items_def by (rule in_set_takeD)
    then show "x \<in> {it \<in> set (items db). quantity it \<le> minimum_stock it}"
      by (simp add: is_low_stock_def)
  qed
  have b: "sorted (map quantity (low_stock_items db))"
    unfolding low_stock_items_def by (simp add: take_map [symmetric])
  have c: "length (low_stock_items db) = min 5 (low_stock_count db)"
    by (simp add: low_stock_items_def low_stock_count_def min.commute)
  have d: "low_stock_count db = length (filter (\<lambda>it. quantity it \<le> minimum_stock it) (items db))"
    by (simp add: low_stock_count_def low)
  have e: "mset (low_stock_items db) =
             mset (filter (\<lambda>it. quantity it \<le> minimum_stock it) (items db))"
    if "low_stock_count db \<le> 5"
  proof -
    have "low_stock_items db = ?srt"
      using that by (simp add: low_stock_items_def low_stock_count_def)
    then show ?thesis by (simp add: low)
  qed
  have f: "quantity y \<le> quantity x"
    if "x \<in> set (items db)" "quantity x \<le> minimum_stock x" "x \<notin> set (low_stock_items db)"
      "y \<in> set (low_stock_items db)" for x y
  proof -
    have "x \<in> set ?srt" using that(1,2) by (simp add: is_low_stock_def)
    then have "x \<in> set (take 5 ?srt) \<union> set (drop 5 ?srt)"
      by (simp flip: set_append)
    then have x: "x \<in> set (drop 5 ?srt)"
      using that(3) by (simp add: low_stock_items_def)
    have y: "y \<in> set (take 5 ?srt)" using that(4) by (simp add: low_stock_items_def)
    have s: "sorted (map quantity ?srt)" by simp
    show ?thesis by (rule sorted_take_drop_le [OF s y x])
  qed
  from a b c d e f show ?thesis by blast
qed

theorem low_stock_items_first_five_witness:
  "map item_id (low_stock_items (shelf [(1, 5, 10), (2, 20, 10), (3, 2, 2)])) = [3, 1]
   \<and> low_stock_count (shelf [(1, 5, 10), (2, 20, 10), (3, 2, 2)]) = 2
   \<and> mset (low_stock_items (shelf [(1, 5, 10), (2, 20, 10), (3, 2, 2)])) =
       mset (filter (\<lambda>it. quantity it \<le> minimum_stock it)
              (items (shelf [(1, 5, 10), (2, 20, 10), (3, 2, 2)])))"
  using low_stock_items_first_five [of "shelf [(1, 5, 10), (2, 20, 10), (3, 2, 2)]"]
  by (simp add: low_stock_items_def low_stock_count_def shelf_def is_low_stock_def)

text \<open>
  C9. Whatever the session, the method and the form, \<^verbatim>\<open>edit_item\<close> leaves the transactions
  ledger and both id counters as they were, keeps the rows of \<^verbatim>\<open>items\<close> in number and
  order with their id, quantity, unit price and creation time, and leaves the rows of
  every other id untouched: only name, description, category, minimum stock and the
  update time of the edited item can differ.
\<close>

theorem edit_item_frame:
  "transactions (fst (edit_item sess now iid meth form db)) = transactions db
   \<and> transactions_seq (fst (edit_item sess now iid meth form db)) = transactions_seq db
   \<and> items_seq (fst (edit_item sess now iid meth form db)) = items_seq db
   \<and> map edit_frame (items (fst (edit_item sess now iid meth form db))) =
       map edit_frame (items db)
   \<and> filter (\<lambda>it. item_id it \<noteq> iid) (items (fst (edit_item sess now iid meth form db))) =
       filter (\<lambda>it. item_id it \<noteq> iid) (items db)"
proof -
  let ?upd = "\<lambda>it. if item_id it = iid
                    then it\<lparr>name := edit_name form, description := edit_description form,
                            category := edit_category form,
                            minimum_stock := edit_minimum_stock form, updated_at := now\<rparr>
                    else it"
  have frame: "map edit_frame (map ?upd xs) = map edit_frame xs" for xs :: "item list"
    by (induction xs) (simp_all add: edit_frame_def)
  have others: "filter (\<lambda>it. item_id it \<noteq> iid) (map ?upd xs) =
                filter (\<lambda>it. item_id it \<noteq> iid) xs" for xs :: "item list"
    by (induction xs) simp_all
  show ?thesis
    using frame [of "items db"] others [of "items db"]
    by (cases sess; cases meth) (simp_all add: edit_item_def login_required_def)
qed

theorem edit_item_frame_witness:
  "map name (items (fst (edit_item (Some 7) ''2024-02-01 00:00:00'' 1 POST rename_form stock_db)))
     = [''washer'']
   \<and> map quantity
        (items (fst (edit_item (Some 7) ''2024-02-01 00:00:00'' 1 POST rename_form stock_db)))
     = [10]
   \<and> transactions (fst (edit_item (Some 7) ''2024-02-01 00:00:00'' 1 POST rename_form stock_db))
     = transactions stock_db"
  using edit_item_frame [of "Some 7" "''2024-02-01 00:00:00''" 1 POST rename_form stock_db]
  by (simp add: edit_item_def login_required_def sqlite_int_def stock_db_def rename_form_def)

section \<open>Hotel booking (003): properties\<close>

text \<open>
  C10, counterexample. The route accepts any non-negative integer as the booking id. With
  the id \<open>2^63\<close>, which no booking has, binding the id raises \<^verbatim>\<open>OverflowError\<close>; the
  handler catches \<^verbatim>\<open>sqlite3.Error\<close> only, so the exception escapes and no
  \<^verbatim>\<open>Booking not found!\<close> is flashed. The database is as it was.
\<close>

theorem cancel_booking_overflow_counterexample:
  "filter (\<lambda>b. booking_id b = 9223372036854775808) (bookings hotel_example) = []
   \<and> cancel_booking (Some 2) 9223372036854775808 hotel_example =
       (hotel_example, Raised OverflowError)"
  by (simp add: hotel_example_def sqlite_int_def cancel_booking_def login_required_def)

text \<open>
  C10, as the code has it. \<^verbatim>\<open>cancel_booking\<close> changes the database only when a booking
  with the given id belongs to the user of the session. When no such booking exists (the
  id is unknown, or the booking is another user's), the database, with its bookings and
  room statuses, is returned as it was; \<^verbatim>\<open>Booking not found!\<close> is flashed when the booking
  id and the user id fit SQLite's 64-bit integers, and \<^verbatim>\<open>OverflowError\<close> escapes when one
  of them does not. Without a session the handler redirects to the login page.
\<close>

theorem cancel_booking_not_found:
  "(fst (cancel_booking sess bid db) \<noteq> db \<longrightarrow>
      (\<exists>uid b. sess = Some uid \<and> b \<in> set (bookings db) \<and> booking_id b = bid
               \<and> booking_user_id b = uid))
   \<and> (\<forall>uid. sess = Some uid \<and> sqlite_int bid \<and> sqlite_int uid
          \<and> \<not> (\<exists>b \<in> set (bookings db). booking_id b = bid \<and> booking_user_id b = uid)
        \<longrightarrow> cancel_booking sess bid db =
              (db, Flash_redirect ''Booking not found!'' ''error'' ''bookings''))
   \<and> (\<forall>uid. sess = Some uid \<and> \<not> (sqlite_int bid \<and> sqlite_int uid)
        \<longrightarrow> cancel_booking sess bid db = (db, Raised OverflowError))
   \<and> (sess = None
        \<longrightarrow> cancel_booking sess bid db =
              (db, Flash_redirect ''Please login first.'' ''error'' ''login''))"
proof -
  have none: "find (\<lambda>b. booking_id b = bid \<and> booking_user_id b = uid) (bookings db) = None"
    if "\<not> (\<exists>b \<in> set (bookings db). booking_id b = bid \<and> booking_user_id b = uid)" for uid
    using that by (simp add: find_None_iff)
  have some: "\<exists>b. b \<in> set (bookings db) \<and> booking_id b = bid \<and> booking_user_id b = uid"
    if "find (\<lambda>b. booking_id b = bid \<and> booking_user_id b = uid) (bookings db) = Some x"
    for uid x
    using find_SomeD [OF that] by blast
  have a: "\<exists>uid b. sess = Some uid \<and> b \<in> set (bookings db) \<and> booking_id b = bid
               \<and> booking_user_id b = uid"
    if "fst (cancel_booking sess bid db) \<noteq> db"
  proof (cases sess)
    case None
    with that show ?thesis by (simp add: cancel_booking_def login_required_def)
  next
    case (Some uid)
    show ?thesis
    proof (cases "find (\<lambda>b. booking_id b = bid \<and> booking_user_id b = uid) (bookings db)")
      case None
      with that Some show ?thesis
        by (simp add: cancel_booking_def login_required_def split: if_splits)
    next
      case (Some x)
      then show ?thesis using some \<open>sess = Some uid\<close> by blast
    qed
  qed
  have b: "cancel_booking sess bid db =
              (db, Flash_redirect ''Booking not found!'' ''error'' ''bookings'')"
    if "sess = Some uid" "sqlite_int bid" "sqlite_int uid"
      "\<not> (\<exists>b \<in> set (bookings db). booking_id b = bid \<and> booking_user_id b = uid)" for uid
    using that none [OF that(4)] by (simp add: cancel_booking_def login_required_def)
  have c: "cancel_booking sess bid db = (db, Raised OverflowError)"
    if "sess = Some uid" "\<not> (sqlite_int bid \<and> sqlite_int uid)" for uid
    using that by (auto simp: cancel_booking_def login_required_def)
  have d: "cancel_booking sess bid db =
              (db, Flash_redirect ''Please login first.'' ''error'' ''login'')"
    if "sess = None"
    using that by (simp add: cancel_booking_def login_required_def)
  from a b c d show ?thesis by blast
qed

theorem cancel_booking_not_found_witness:
  "cancel_booking (Some 3) 1 hotel_example =
     (hotel_example, Flash_redirect ''Booking not found!'' ''error'' ''bookings'')
   \<and> cancel_booking (Some 2) 5 hotel_example =
     (hotel_example, Flash_redirect ''Booking not found!'' ''error'' ''bookings'')
   \<and> cancel_booking (Some 2) (2 ^ 64) hotel_example = (hotel_example, Raised OverflowError)
   \<and> cancel_booking None 1 hotel_example =
     (hotel_example, Flash_redirect ''Please login first.'' ''error'' ''login'')
   \<and> map booking_status (bookings (fst (cancel_booking (Some 2) 1 hotel_example))) = [''cancelled'']
   \<and> map room_status (rooms (fst (cancel_booking (Some 2) 1 hotel_example))) = [''available'']"
  using cancel_booking_not_found [of "Some 3" 1 hotel_example]
    cancel_booking_not_found [of "Some 2" 5 hotel_example]
    cancel_booking_not_found [of "Some 2" "2 ^ 64" hotel_example]
    cancel_booking_not_found [of None 1 hotel_example]
    cancel_booking_not_found [of "Some 2" 1 hotel_example]
  by (simp add: hotel_example_def sqlite_int_def cancel_booking_def login_required_def)


section \<open>Task manager (001): properties\<close>

text \<open>
  C7. \<^verbatim>\<open>Task.is_overdue\<close> is true exactly when the status is not \<^verbatim>\<open>Completed\<close> and the due
  date parses to a date strictly before today. A completed task is never overdue, a task
  due today is not overdue, and \<^verbatim>\<open>get_overdue_tasks\<close> keeps exactly the tasks of which
  this holds.
\<close>

theorem is_overdue_iff:
  "(is_overdue fromisoformat today t \<longleftrightarrow>
      status t \<noteq> ''Completed''
      \<and> (\<exists>due. fromisoformat (due_date t) = Some due \<and> date_less (date_part due) today))
   \<and> (status t = ''Completed'' \<longrightarrow> \<not> is_overdue fromisoformat today t)
   \<and> (\<forall>due. fromisoformat (due_date t) = Some due \<and> date_part due = today
         \<longrightarrow> \<not> is_overdue fromisoformat today t)
   \<and> get_overdue_tasks fromisoformat today tasks =
       filter (\<lambda>t. status t \<noteq> ''Completed''
                 \<and> (\<exists>due. fromisoformat (due_date t) = Some due
                         \<and> date_less (date_part due) today)) tasks"
proof -
  have iff: "is_overdue fromisoformat today t \<longleftrightarrow>
      status t \<noteq> ''Completed''
      \<and> (\<exists>due. fromisoformat (due_date t) = Some due \<and> date_less (date_part due) today)" for t
    by (cases "fromisoformat (due_date t)") (simp_all add: is_overdue_def COMPLETED_def)
  have "get_overdue_tasks fromisoformat today tasks =
       filter (\<lambda>t. status t \<noteq> ''Completed''
                 \<and> (\<exists>due. fromisoformat (due_date t) = Some due
                         \<and> date_less (date_part due) today)) tasks"
    unfolding get_overdue_tasks_def by (rule filter_cong) (simp_all add: iff)
  moreover have "\<not> is_overdue fromisoformat today t"
    if "fromisoformat (due_date t) = Some due" "date_part due = today" for due
    using that by (simp add: iff date_less_irrefl)
  ultimately show ?thesis using iff by blast
qed

lemma parse_ex1: "fromisoformat_basic ''2024-05-30T00:00:00'' =
   Some \<lparr>date_part = \<lparr>year = 2024, month = 5, day = 30\<rparr>, hour = 0, minute = 0, second = 0\<rparr>"
  by (simp add: fromisoformat_basic_def parse_date_def parse_time_def digit_def valid_date_def
      days_in_month_def)

lemma parse_ex2: "fromisoformat_basic ''2024-06-01T00:00:00'' =
   Some \<lparr>date_part = \<lparr>year = 2024, month = 6, day = 1\<rparr>, hour = 0, minute = 0, second = 0\<rparr>"
  by (simp add: fromisoformat_basic_def parse_date_def parse_time_def digit_def valid_date_def
      days_in_month_def)

theorem is_overdue_iff_witness:
  "get_overdue_tasks fromisoformat_basic \<lparr>year = 2024, month = 6, day = 1\<rparr>
     [example_task ''t1'' ''2024-05-30T00:00:00'' ''Pending'',
      example_task ''t2'' ''2024-05-30T00:00:00'' ''Completed'',
      example_task ''t3'' ''2024-06-01T00:00:00'' ''In Progress'',
      example_task ''t4'' ''soon'' ''Pending'']
   = [example_task ''t1'' ''2024-05-30T00:00:00'' ''Pending'']
   \<and> is_overdue fromisoformat_basic \<lparr>year = 2024, month = 6, day = 1\<rparr>
        (example_task ''t1'' ''2024-05-30T00:00:00'' ''Pending'')
   \<and> \<not> is_overdue fromisoformat_basic \<lparr>year = 2024, month = 6, day = 1\<rparr>
        (example_task ''t2'' ''2024-05-30T00:00:00'' ''Completed'')
   \<and> \<not> is_overdue fromisoformat_basic \<lparr>year = 2024, month = 6, day = 1\<rparr>
        (example_task ''t3'' ''2024-06-01T00:00:00'' ''In Progress'')"
proof -
  have p3: "fromisoformat_basic ''soon'' = None"
    by (simp add: fromisoformat_basic_def)
  show ?thesis
    using is_overdue_iff [of fromisoformat_basic "\<lparr>year = 2024, month = 6, day = 1\<rparr>"
        "example_task ''t1'' ''2024-05-30T00:00:00'' ''Pending''"
        "[example_task ''t1'' ''2024-05-30T00:00:00'' ''Pending'',
          example_task ''t2'' ''2024-05-30T00:00:00'' ''Completed'',
          example_task ''t3'' ''2024-06-01T00:00:00'' ''In Progress'',
          example_task ''t4'' ''soon'' ''Pending'']"]
    by (simp add: example_task_def parse_ex1 parse_ex2 p3 date_less_def is_overdue_def
        COMPLETED_def)
qed

section \<open>Library management (004): properties\<close>

text \<open>
  \<^verbatim>\<open>add_borrow_record\<close> supplies eight values to the ten-column table, so its \<^verbatim>\<open>INSERT\<close> is
  refused on every call: the method returns \<^verbatim>\<open>False\<close> and nothing is written.
\<close>

lemma add_borrow_record_rejected: "add_borrow_record record db = (db, False)"
  by (simp add: add_borrow_record_def insert_borrow_values_def)

text \<open>
  C4, at the failing input. Book \<open>b2\<close> is \<^verbatim>\<open>Available\<close>; opening a loan on it with a new
  \<^verbatim>\<open>Active\<close> record returns \<^verbatim>\<open>False\<close> and leaves the database as it was: the book is not
  set to \<^verbatim>\<open>Borrowed\<close> and no record is appended.
\<close>

theorem add_borrow_record_available_rejected:
  "map book_status (filter (\<lambda>b. book_id b = ''b2'') (books library_example)) = [''Available'']
   \<and> add_borrow_record (new_BorrowRecord ''r2'' ''b2'' ''u1'' ''2024-01-05'' ''2024-01-19'')
       library_example = (library_example, False)"
  by (simp add: add_borrow_record_rejected) (simp add: library_example_def example_book_def)

text \<open>
  C5, counterexample. Record \<open>r1\<close> of \<open>closed_example\<close> is \<^verbatim>\<open>Returned\<close>, with return date
  2024-01-13 and fee 6. A second \<^verbatim>\<open>return_book\<close> on it returns \<^verbatim>\<open>True\<close>, replaces the return
  date and the fee, and decrements the borrower's count again, to \<open>-1\<close>.
\<close>

theorem return_book_second_close_counterexample:
  "map br_status (borrow_records closed_example) = [Text ''Returned'']
   \<and> map br_return_date (borrow_records closed_example) = [Text ''2024-01-13'']
   \<and> map br_late_fee (borrow_records closed_example) = [Real (Finite 6)]
   \<and> map borrowed_books (users closed_example) = [Some 0]
   \<and> snd (return_book ''r1'' ''2024-02-01'' (Finite 0) closed_example) = Inr True
   \<and> map br_return_date
       (borrow_records (fst (return_book ''r1'' ''2024-02-01'' (Finite 0) closed_example)))
       = [Text ''2024-02-01'']
   \<and> map br_late_fee
       (borrow_records (fst (return_book ''r1'' ''2024-02-01'' (Finite 0) closed_example)))
       = [Real (Finite 0)]
   \<and> map borrowed_books (users (fst (return_book ''r1'' ''2024-02-01'' (Finite 0) closed_example)))
       = [Some (- 1)]"
  by (simp add: closed_example_def return_book_def library_example_def example_loan_def
      example_book_def example_user_def sql_real_def AVAILABLE_def)

text \<open>
  C5, as the code has it. \<^verbatim>\<open>return_book\<close> does not read the record's status. On every
  record id the table holds, \<^verbatim>\<open>Active\<close> or \<^verbatim>\<open>Returned\<close> alike, it returns \<^verbatim>\<open>True\<close> after
  setting return date, fee and status \<^verbatim>\<open>Returned\<close> on the record, \<^verbatim>\<open>Available\<close> on its book,
  and taking one off the borrower's count. On an id the table does not hold it raises
  \<^verbatim>\<open>TypeError\<close> and changes nothing.
\<close>

theorem return_book_ignores_status:
  "(\<forall>found. find (\<lambda>r. br_id r = Text record_id) (borrow_records db) = Some found \<longrightarrow>
      return_book record_id return_date late_fee db =
        (db\<lparr>borrow_records :=
               map (\<lambda>r. if br_id r = Text record_id
                         then r\<lparr>br_return_date := Text return_date,
                                 br_late_fee := sql_real late_fee,
                                 br_status := Text ''Returned''\<rparr>
                         else r) (borrow_records db),
            books := map (\<lambda>b. if Text (book_id b) = br_book_id found
                                then b\<lparr>book_status := ''Available''\<rparr> else b) (books db),
            users := map (\<lambda>u. if Text (user_id u) = br_user_id found
                                then u\<lparr>borrowed_books :=
                                         map_option (\<lambda>n. n - 1) (borrowed_books u)\<rparr>
                                else u) (users db)\<rparr>,
         Inr True))
   \<and> (find (\<lambda>r. br_id r = Text record_id) (borrow_records db) = None \<longrightarrow>
        return_book record_id return_date late_fee db = (db, Inl TypeError))"
  by (simp add: return_book_def AVAILABLE_def)

theorem return_book_ignores_status_witness:
  "map br_status (borrow_records closed_example) = [Text ''Returned'']
   \<and> snd (return_book ''r1'' ''2024-02-01'' (Finite 2) closed_example) = Inr True
   \<and> return_book ''r9'' ''2024-02-01'' (Finite 2) closed_example =
       (closed_example, Inl TypeError)"
proof -
  have rows: "borrow_records closed_example =
      [(example_loan ''r1'' ''b1'' ''u1'' ''2024-01-10'')
         \<lparr>br_return_date := Text ''2024-01-13'', br_late_fee := Real (Finite 6),
          br_status := Text ''Returned''\<rparr>]"
    by (simp add: closed_example_def return_book_def library_example_def example_loan_def
        sql_real_def)
  have found: "find (\<lambda>r. br_id r = Text ''r1'') (borrow_records closed_example) =
      Some ((example_loan ''r1'' ''b1'' ''u1'' ''2024-01-10'')
         \<lparr>br_return_date := Text ''2024-01-13'', br_late_fee := Real (Finite 6),
          br_status := Text ''Returned''\<rparr>)"
    by (simp add: rows example_loan_def)
  have missing: "find (\<lambda>r. br_id r = Text ''r9'') (borrow_records closed_example) = None"
    by (simp add: rows example_loan_def)
  have "snd (return_book ''r1'' ''2024-02-01'' (Finite 2) closed_example) = Inr True"
    using return_book_ignores_status [THEN conjunct1, rule_format, OF found] by simp
  moreover have "return_book ''r9'' ''2024-02-01'' (Finite 2) closed_example =
       (closed_example, Inl TypeError)"
    using return_book_ignores_status [THEN conjunct2, rule_format, OF missing] .
  moreover have "map br_status (borrow_records closed_example) = [Text ''Returned'']"
    by (simp add: rows example_loan_def)
  ultimately show ?thesis by simp
qed

text \<open>
  C6, counterexample. Record \<open>r1\<close> is due 2024-01-10. Returned on 2024-01-13 with no fee
  argument, the stored fee is 0, where the rule asks 6 at a daily rate of 2; returned on
  2024-01-09 with a fee argument of 5, the stored fee is 5, where the rule asks 0.
\<close>

theorem return_book_fee_counterexample:
  "map br_due_date (borrow_records library_example) = [Text ''2024-01-10'']
   \<and> map br_late_fee
       (borrow_records (fst (return_book ''r1'' ''2024-01-13'' default_late_fee library_example)))
       = [Real (Finite 0)]
   \<and> parse_date ''2024-01-10'' = Some \<lparr>year = 2024, month = 1, day = 10\<rparr>
   \<and> parse_date ''2024-01-13'' = Some \<lparr>year = 2024, month = 1, day = 13\<rparr>
   \<and> spec_computeLateFee \<lparr>year = 2024, month = 1, day = 10\<rparr> \<lparr>year = 2024, month = 1, day = 13\<rparr> 2
       = 6
   \<and> map br_late_fee
       (borrow_records (fst (return_book ''r1'' ''2024-01-09'' (Finite 5) library_example)))
       = [Real (Finite 5)]
   \<and> parse_date ''2024-01-09'' = Some \<lparr>year = 2024, month = 1, day = 9\<rparr>
   \<and> spec_computeLateFee \<lparr>year = 2024, month = 1, day = 10\<rparr> \<lparr>year = 2024, month = 1, day = 9\<rparr> 2
       = 0"
  by (simp add: return_book_def library_example_def example_loan_def example_book_def
      example_user_def sql_real_def default_late_fee_def parse_date_def digit_def
      valid_date_def days_in_month_def spec_computeLateFee_def toordinal_def
      days_before_year_def days_before_month_def is_leap_def)

text \<open>
  C6, as the code has it. The fee recorded on closing a loan is the \<^verbatim>\<open>late_fee\<close> argument
  of \<^verbatim>\<open>return_book\<close> (NULL for a NaN), on every row of the record id, whatever the due date
  and the return date; the due dates are left as they were.
\<close>

theorem return_book_stores_given_fee:
  assumes "find (\<lambda>r. br_id r = Text record_id) (borrow_records db) = Some found"
  shows "filter (\<lambda>r. br_id r = Text record_id)
           (borrow_records (fst (return_book record_id return_date late_fee db))) \<noteq> []
       \<and> map br_late_fee (filter (\<lambda>r. br_id r = Text record_id)
           (borrow_records (fst (return_book record_id return_date late_fee db)))) =
         replicate (length (filter (\<lambda>r. br_id r = Text record_id) (borrow_records db)))
           (sql_real late_fee)
       \<and> map br_due_date (borrow_records (fst (return_book record_id return_date late_fee db)))
           = map br_due_date (borrow_records db)"
proof -
  let ?upd = "\<lambda>r. if br_id r = Text record_id
                   then r\<lparr>br_return_date := Text return_date,
                           br_late_fee := sql_real late_fee,
                           br_status := Text ''Returned''\<rparr>
                   else r"
  have fee: "map br_late_fee (filter (\<lambda>r. br_id r = Text record_id) (map ?upd xs)) =
               replicate (length (filter (\<lambda>r. br_id r = Text record_id) xs)) (sql_real late_fee)"
    for xs :: "borrow_row list"
    by (induction xs) simp_all
  have due: "map br_due_date (map ?upd xs) = map br_due_date xs" for xs :: "borrow_row list"
    by (induction xs) simp_all
  have "found \<in> set (borrow_records db)" "br_id found = Text record_id"
    using find_SomeD [OF assms] by simp_all
  then have "filter (\<lambda>r. br_id r = Text record_id) (borrow_records db) \<noteq> []"
    by (auto simp: filter_empty_conv)
  then have ne: "filter (\<lambda>r. br_id r = Text record_id) (map ?upd (borrow_records db)) \<noteq> []"
    using fee [of "borrow_records db"] by (metis length_0_conv list.map_disc_iff replicate_empty)
  show ?thesis
    using fee [of "borrow_records db"] due [of "borrow_records db"] ne assms
    by (simp add: return_book_def)
qed

theorem return_book_stores_given_fee_witness:
  "map br_late_fee
     (borrow_records (fst (return_book ''r1'' ''2024-01-20'' (Finite 3) library_example)))
     = [Real (Finite 3)]
   \<and> map br_due_date
     (borrow_records (fst (return_book ''r1'' ''2024-01-20'' (Finite 3) library_example)))
     = [Text ''2024-01-10'']"
  using return_book_stores_given_fee [of "''r1''" library_example
      "example_loan ''r1'' ''b1'' ''u1'' ''2024-01-10''" "''2024-01-20''" "Finite 3"]
  by (simp add: library_example_def example_loan_def sql_real_def return_book_def)

end
